theory Spec2Isabelle
  imports Main "HOL-Library.Word" "HOL-Library.Sublist"
begin

unbundle bit_operations_syntax

section \<open>Values shared by the modules\<close>

text \<open>
  Python \<open>bytes\<close> are lists of 8-bit words; Python \<open>str\<close> values are HOL strings.
  Exceptions are values of \<open>py_exn\<close>; a call that can raise returns a sum with the
  exception on the left.
\<close>

type_synonym byte = "8 word"
type_synonym bytes = "byte list"

datatype py_exn =
    KeyError
  | ValueError
  | FileNotFoundError
  | FileExistsError
  | NotADirectoryError
  | IsADirectoryError
  | OperationalError
  | RuntimeError
  | TypeError
  | RequestError
  | HTTPStatusError

section \<open>config.py\<close>

datatype AppSettings = DB_FILE | DOWNLOAD_DIR

fun setting_value :: "AppSettings \<Rightarrow> string" where
  "setting_value DB_FILE = ''ssa.db''"
| "setting_value DOWNLOAD_DIR = ''pdf_downloads''"

section \<open>The state outside the interpreter\<close>

text \<open>
  A row of the table \<open>seen_pdfs\<close> (\<open>hash TEXT PRIMARY KEY, source_url TEXT NOT NULL,
  first_seen_utc TIMESTAMP NOT NULL\<close>). A timestamp is a number of microseconds.
\<close>

type_synonym datetime = int

record seen_pdfs_row =
  hash :: string
  source_url :: string
  first_seen_utc :: datetime

text \<open>
  A SQLite database file of this program holds the table \<open>seen_pdfs\<close> or no table at
  all (\<open>None\<close>): a file that \<open>sqlite3.connect\<close> has just created is empty.
\<close>

type_synonym database = "seen_pdfs_row list option"

text \<open>
  The world a run acts on: the process environment, the SQLite database files by path,
  and the directories and regular files of the file system by path.
\<close>

record world =
  environ :: "string \<rightharpoonup> string"
  databases :: "string \<rightharpoonup> database"
  dirs :: "string set"
  files :: "string \<rightharpoonup> bytes"

section \<open>database.py\<close>

text \<open>\<open>os.environ.get(key, default)\<close>.\<close>

definition environ_get :: "(string \<rightharpoonup> string) \<Rightarrow> string \<Rightarrow> string \<Rightarrow> string" where
  "environ_get env key dflt = (case env key of None \<Rightarrow> dflt | Some v \<Rightarrow> v)"

text \<open>
  \<open>sqlite3.connect(path)\<close> opens the database file and creates an empty one when there
  is none.
\<close>

definition sqlite3_connect :: "world \<Rightarrow> string \<Rightarrow> world" where
  "sqlite3_connect w path =
     (case databases w path of
        None \<Rightarrow> w\<lparr>databases := (databases w)(path \<mapsto> None)\<rparr>
      | Some db \<Rightarrow> w)"

text \<open>\<open>CREATE TABLE IF NOT EXISTS seen_pdfs (...)\<close>, committed, on an open connection.\<close>

definition create_table_if_not_exists :: "world \<Rightarrow> string \<Rightarrow> world" where
  "create_table_if_not_exists w path =
     (case databases w path of
        Some None \<Rightarrow> w\<lparr>databases := (databases w)(path \<mapsto> Some [])\<rparr>
      | _ \<Rightarrow> w)"

text \<open>
  \<open>SELECT 1 FROM seen_pdfs WHERE hash = ?\<close>: one result row \<open>1\<close> for every stored row with
  that hash; \<open>OperationalError\<close> (no such table) when the table is missing.
\<close>

definition select_1_where_hash :: "world \<Rightarrow> string \<Rightarrow> string \<Rightarrow> py_exn + nat list" where
  "select_1_where_hash w path pdf_hash =
     (case databases w path of
        Some (Some rows) \<Rightarrow> Inr (map (\<lambda>r. 1) (filter (\<lambda>r. hash r = pdf_hash) rows))
      | _ \<Rightarrow> Inl OperationalError)"

text \<open>\<open>cursor.fetchone()\<close>: the first result row, or \<open>None\<close>.\<close>

fun fetchone :: "'a list \<Rightarrow> 'a option" where
  "fetchone [] = None"
| "fetchone (x # xs) = Some x"

text \<open>
  \<open>INSERT OR IGNORE INTO seen_pdfs (hash, source_url, first_seen_utc) VALUES (?, ?, ?)\<close>,
  committed: a row whose hash is already a primary key of the table is ignored, any
  other row is appended; \<open>OperationalError\<close> when the table is missing.
\<close>

definition insert_or_ignore :: "world \<Rightarrow> string \<Rightarrow> seen_pdfs_row \<Rightarrow> py_exn + world" where
  "insert_or_ignore w path r =
     (case databases w path of
        Some (Some rows) \<Rightarrow>
          (case find (\<lambda>x. hash x = hash r) rows of
             Some x \<Rightarrow> Inr w
           | None \<Rightarrow> Inr (w\<lparr>databases := (databases w)(path \<mapsto> Some (rows @ [r]))\<rparr>))
      | _ \<Rightarrow> Inl OperationalError)"

definition setup_database :: "world \<Rightarrow> world" where
  "setup_database w =
     (let db_file = environ_get (environ w) (setting_value DB_FILE) ''ssa.db'';
          w1 = sqlite3_connect w db_file
      in create_table_if_not_exists w1 db_file)"

text \<open>
  \<open>hash_exists\<close> returns the world it leaves and its result; an exception of
  \<open>cursor.execute\<close> is not caught and leaves the function.
\<close>

definition hash_exists :: "world \<Rightarrow> string \<Rightarrow> world \<times> (py_exn + bool)" where
  "hash_exists w pdf_hash =
     (let w1 = sqlite3_connect w (setting_value DB_FILE) in
      case select_1_where_hash w1 (setting_value DB_FILE) pdf_hash of
        Inl e \<Rightarrow> (w1, Inl e)
      | Inr result \<Rightarrow> (w1, Inr (fetchone result \<noteq> None)))"

text \<open>
  \<open>add_hash\<close>; \<open>now\<close> is the value of \<open>datetime.now(tz=timezone.utc)\<close> at the call.
\<close>

definition add_hash :: "world \<Rightarrow> string \<Rightarrow> string \<Rightarrow> datetime \<Rightarrow> world \<times> (py_exn + unit)" where
  "add_hash w pdf_hash pdf_url now =
     (let w1 = sqlite3_connect w (setting_value DB_FILE);
          timestamp = now
      in case insert_or_ignore w1 (setting_value DB_FILE)
                \<lparr>hash = pdf_hash, source_url = pdf_url, first_seen_utc = timestamp\<rparr> of
           Inl e \<Rightarrow> (w1, Inl e)
         | Inr w2 \<Rightarrow> (w2, Inr ()))"

text \<open>
  Observers of the store: the table \<open>seen_pdfs\<close> of a database file, if the file and
  the table exist, and the rows of the store the read and write operations address.
\<close>

definition seen_pdfs_of :: "world \<Rightarrow> string \<Rightarrow> seen_pdfs_row list option" where
  "seen_pdfs_of w path = (case databases w path of None \<Rightarrow> None | Some db \<Rightarrow> db)"

definition seen_pdfs :: "world \<Rightarrow> seen_pdfs_row list" where
  "seen_pdfs w = (case seen_pdfs_of w (setting_value DB_FILE) of None \<Rightarrow> [] | Some rows \<Rightarrow> rows)"

definition records_with_hash :: "world \<Rightarrow> string \<Rightarrow> seen_pdfs_row list" where
  "records_with_hash w h = filter (\<lambda>r. hash r = h) (seen_pdfs w)"

text \<open>The uniqueness constraint that \<open>PRIMARY KEY\<close> puts on the table.\<close>

definition primary_key_unique :: "world \<Rightarrow> bool" where
  "primary_key_unique w = distinct (map hash (seen_pdfs w))"

text \<open>A world for examples: no environment variable, no database file, no file.\<close>

definition empty_world :: world where
  "empty_world = \<lparr>environ = Map.empty, databases = Map.empty, dirs = {}, files = Map.empty\<rparr>"

text \<open>
  A store that holds one record, and a world whose environment variable names another
  database file.
\<close>

definition example_store :: world where
  "example_store = empty_world\<lparr>databases := [''ssa.db'' \<mapsto>
      Some [\<lparr>hash = ''ab12'', source_url = ''http://h/a.pdf'', first_seen_utc = 5\<rparr>]]\<rparr>"


section \<open>utils.py\<close>


























section \<open>Regular expressions of the \<open>re\<close> module\<close>



definition ascii_lower :: "char \<Rightarrow> char" where
  "ascii_lower c =
     (case map_of (zip ''ABCDEFGHIJKLMNOPQRSTUVWXYZ'' ''abcdefghijklmnopqrstuvwxyz'') c of
        None \<Rightarrow> c
      | Some l \<Rightarrow> l)"










section \<open>main.py: the pattern filter\<close>




section \<open>The libraries main.py calls\<close>

text \<open>
  A parsed HTML document is the sequence of its nodes in document order, as
  \<open>BeautifulSoup(response.text, "html.parser")\<close> builds them: tags with their name and
  their attribute dictionary, and text nodes. An attribute value is a string, or a list
  of strings for a multi-valued attribute.
\<close>

datatype attr_value = AttrStr string | AttrList "string list"

datatype element = Tag string "(string \<times> attr_value) list" | NavigableString string

text \<open>
  The response of \<open>httpx.get\<close>, with its body already parsed, and the response of
  \<open>httpx.stream\<close>: the chunks that \<open>iter_bytes\<close> yields and the exception that ends
  the iteration early, if any.
\<close>

record response =
  status_code :: nat
  document :: "element list"

record stream_response =
  stream_status_code :: nat
  stream_chunks :: "bytes list"
  stream_error :: "py_exn option"

type_synonym headers = "(string \<times> string) list"

type_synonym kwargs = "string \<rightharpoonup> headers"

text \<open>
  What a run takes from outside the repository: the answers of the network to
  \<open>httpx.get\<close> and \<open>httpx.stream\<close> (a response, or the exception raised),
  \<open>urlparse(s).path\<close> and \<open>urljoin\<close> of \<open>urllib.parse\<close> (a result, or the exception
  raised), the successive values of \<open>uuid.uuid4()\<close> and of \<open>datetime.now\<close>, and the
  string \<open>UserAgent().chrome\<close>.
\<close>

record platform =
  httpx_get :: "string \<Rightarrow> kwargs \<Rightarrow> py_exn + response"
  httpx_stream :: "string \<Rightarrow> kwargs \<Rightarrow> py_exn + stream_response"
  urlparse_path :: "string \<Rightarrow> py_exn + string"
  urljoin :: "string \<Rightarrow> string \<Rightarrow> py_exn + string"
  uuid4 :: "nat \<Rightarrow> string"
  utcnow :: "nat \<Rightarrow> datetime"
  chrome_user_agent :: string

text \<open>\<open>response.raise_for_status()\<close>: \<open>HTTPStatusError\<close> unless the status is 2xx.\<close>

definition is_success :: "nat \<Rightarrow> bool" where
  "is_success status \<longleftrightarrow> 200 \<le> status \<and> status \<le> 299"

definition raise_for_status :: "nat \<Rightarrow> py_exn + unit" where
  "raise_for_status status = (if is_success status then Inr () else Inl HTTPStatusError)"

text \<open>\<open>soup.find_all("a", href=True)\<close>: the \<open>a\<close> tags that have an \<open>href\<close> attribute.\<close>

fun is_a_with_href :: "element \<Rightarrow> bool" where
  "is_a_with_href (Tag name attrs) = (name = ''a'' \<and> map_of attrs ''href'' \<noteq> None)"
| "is_a_with_href (NavigableString s) = False"

definition find_all_a_href :: "element list \<Rightarrow> element list" where
  "find_all_a_href soup = filter is_a_with_href soup"

text \<open>\<open>s.endswith(suffix)\<close>.\<close>

definition endswith :: "string \<Rightarrow> string \<Rightarrow> bool" where
  "endswith s sfx \<longleftrightarrow> length sfx \<le> length s \<and> drop (length s - length sfx) s = sfx"

section \<open>main.py: the link extractor\<close>

text \<open>
  The loop over the anchors. It returns \<open>pdf_links\<close> as it stands when the loop ends,
  and the exception that ended it, if one did.
\<close>

fun scan_links :: "platform \<Rightarrow> string \<Rightarrow> element list \<Rightarrow> string list \<Rightarrow> string list \<times> py_exn option" where
  "scan_links P url [] pdf_links = (pdf_links, None)"
| "scan_links P url (NavigableString s # rest) pdf_links = scan_links P url rest pdf_links"
| "scan_links P url (Tag name attrs # rest) pdf_links =
     (case map_of attrs ''href'' of
        None \<Rightarrow> scan_links P url rest pdf_links
      | Some (AttrList vs) \<Rightarrow> scan_links P url rest pdf_links
      | Some (AttrStr href) \<Rightarrow>
          (case urlparse_path P href of
             Inl e \<Rightarrow> (pdf_links, Some e)
           | Inr path \<Rightarrow>
               if endswith path ''.pdf''
               then (case urljoin P url href of
                       Inl e \<Rightarrow> (pdf_links, Some e)
                     | Inr absolute_url \<Rightarrow> scan_links P url rest (pdf_links @ [absolute_url]))
               else scan_links P url rest pdf_links))"

text \<open>The body of the \<open>try\<close> statement, from the list \<open>pdf_links = []\<close>.\<close>

definition get_pdf_links_try :: "platform \<Rightarrow> string \<Rightarrow> kwargs \<Rightarrow> string list \<times> py_exn option" where
  "get_pdf_links_try P url kwargs =
     (case httpx_get P url kwargs of
        Inl e \<Rightarrow> ([], Some e)
      | Inr response \<Rightarrow>
          (case raise_for_status (status_code response) of
             Inl e \<Rightarrow> ([], Some e)
           | Inr u \<Rightarrow> scan_links P url (find_all_a_href (document response)) []))"

text \<open>
  \<open>get_pdf_links\<close>. The log call before \<open>try\<close> reads \<open>kwargs["headers"]\<close> and raises
  \<open>KeyError\<close> without it. Each of the three handlers logs and falls through to
  \<open>return pdf_links\<close>.
\<close>

definition get_pdf_links :: "platform \<Rightarrow> string \<Rightarrow> kwargs \<Rightarrow> py_exn + string list" where
  "get_pdf_links P url kwargs =
     (case kwargs ''headers'' of
        None \<Rightarrow> Inl KeyError
      | Some hs \<Rightarrow>
          (case get_pdf_links_try P url kwargs of
             (pdf_links, None) \<Rightarrow> Inr pdf_links
           | (pdf_links, Some e) \<Rightarrow>
               if e = RequestError then Inr pdf_links
               else if e = HTTPStatusError then Inr pdf_links
               else Inr pdf_links))"

text \<open>
  The extractor as the specification words it, for comparison: the hrefs of the anchors
  in document order, each resolved against the page URL first, those kept whose
  resolved path ends in \<open>.pdf\<close>. \<open>anchor_hrefs\<close> lists the string-valued hrefs of the
  \<open>a\<close> tags.
\<close>

fun anchor_hrefs :: "element list \<Rightarrow> string list" where
  "anchor_hrefs [] = []"
| "anchor_hrefs (NavigableString s # rest) = anchor_hrefs rest"
| "anchor_hrefs (Tag name attrs # rest) =
     (case map_of attrs ''href'' of
        Some (AttrStr href) \<Rightarrow> (if name = ''a'' then href # anchor_hrefs rest else anchor_hrefs rest)
      | _ \<Rightarrow> anchor_hrefs rest)"


definition href_path_is_pdf :: "platform \<Rightarrow> string \<Rightarrow> bool" where
  "href_path_is_pdf P href =
     (case urlparse_path P href of Inl e \<Rightarrow> False | Inr path \<Rightarrow> endswith path ''.pdf'')"

definition resolve :: "platform \<Rightarrow> string \<Rightarrow> string \<Rightarrow> string" where
  "resolve P url href = (case urljoin P url href of Inl e \<Rightarrow> href | Inr absolute_url \<Rightarrow> absolute_url)"



text \<open>An href is processed without an exception.\<close>

definition href_ok :: "platform \<Rightarrow> string \<Rightarrow> string \<Rightarrow> bool" where
  "href_ok P url href =
     (case urlparse_path P href of
        Inl e \<Rightarrow> False
      | Inr path \<Rightarrow>
          (if endswith path ''.pdf''
           then (case urljoin P url href of Inl e \<Rightarrow> False | Inr absolute_url \<Rightarrow> True)
           else True))"

section \<open>A model of \<open>urllib.parse\<close> for the examples\<close>

text \<open>
  \<open>urlsplit\<close>, \<open>urlparse\<close>, \<open>urlunparse\<close> and \<open>urljoin\<close> of CPython 3.11, on strings of
  ASCII characters. The host between a pair of square brackets is not validated here,
  and the normalisation check of a non-ASCII network location is left out; the theorems
  about the extractor hold for every behaviour of the two library functions and use
  this model only at the inputs of their examples.
\<close>

record url_parts =
  url_scheme :: string
  url_netloc :: string
  url_path :: string
  url_params :: string
  url_query :: string
  url_fragment :: string

definition uses_relative :: "string list" where
  "uses_relative = ['''', ''ftp'', ''http'', ''gopher'', ''nntp'', ''imap'', ''wais'', ''file'',
     ''https'', ''shttp'', ''mms'', ''prospero'', ''rtsp'', ''rtsps'', ''rtspu'', ''sftp'',
     ''svn'', ''svn+ssh'', ''ws'', ''wss'']"

definition uses_netloc :: "string list" where
  "uses_netloc = ['''', ''ftp'', ''http'', ''gopher'', ''nntp'', ''telnet'', ''imap'', ''wais'',
     ''file'', ''mms'', ''https'', ''shttp'', ''snews'', ''prospero'', ''rtsp'', ''rtsps'',
     ''rtspu'', ''rsync'', ''svn'', ''svn+ssh'', ''sftp'', ''nfs'', ''git'', ''git+ssh'', ''ws'',
     ''wss'']"

definition uses_params :: "string list" where
  "uses_params = ['''', ''ftp'', ''hdl'', ''prospero'', ''http'', ''imap'', ''https'', ''shttp'',
     ''rtsp'', ''rtsps'', ''rtspu'', ''sip'', ''sips'', ''mms'', ''sftp'', ''tel'']"

definition ascii_letters :: string where
  "ascii_letters = ''abcdefghijklmnopqrstuvwxyzABCDEFGHIJKLMNOPQRSTUVWXYZ''"

definition scheme_chars :: string where
  "scheme_chars = ascii_letters @ ''0123456789+-.''"

definition is_c0_control_or_space :: "char \<Rightarrow> bool" where
  "is_c0_control_or_space c \<longleftrightarrow> (of_char c :: nat) \<le> 32"

definition is_unsafe_url_byte :: "char \<Rightarrow> bool" where
  "is_unsafe_url_byte c \<longleftrightarrow> c = CHR 0x09 \<or> c = CHR 0x0D \<or> c = CHR 0x0A"

text \<open>\<open>s.split(c, 1)\<close> for a string that contains \<open>c\<close>, and \<open>s.split(c)\<close>.\<close>

definition split_first :: "char \<Rightarrow> string \<Rightarrow> string \<times> string" where
  "split_first c s = (takeWhile (\<lambda>x. x \<noteq> c) s, drop 1 (dropWhile (\<lambda>x. x \<noteq> c) s))"

fun split_on :: "char \<Rightarrow> string \<Rightarrow> string list" where
  "split_on c [] = [[]]"
| "split_on c (x # xs) =
     (if x = c then [] # split_on c xs
      else (case split_on c xs of [] \<Rightarrow> [[x]] | y # ys \<Rightarrow> (x # y) # ys))"

fun join_with :: "char \<Rightarrow> string list \<Rightarrow> string" where
  "join_with c [] = []"
| "join_with c [s] = s"
| "join_with c (s # ss) = s @ c # join_with c ss"

definition py_urlsplit :: "string \<Rightarrow> string \<Rightarrow> py_exn + url_parts" where
  "py_urlsplit url0 scheme0 =
     (let url1 = filter (\<lambda>c. \<not> is_unsafe_url_byte c) (dropWhile is_c0_control_or_space url0);
          scheme1 = filter (\<lambda>c. \<not> is_unsafe_url_byte c)
                      (rev (dropWhile is_c0_control_or_space
                         (rev (dropWhile is_c0_control_or_space scheme0))));
          pre = takeWhile (\<lambda>c. c \<noteq> CHR '':'') url1;
          has_scheme = (CHR '':'' \<in> set url1 \<and> pre \<noteq> [] \<and> hd pre \<in> set ascii_letters
                        \<and> list_all (\<lambda>c. c \<in> set scheme_chars) pre);
          scheme = (if has_scheme then map ascii_lower pre else scheme1);
          url2 = (if has_scheme then drop (length pre + 1) url1 else url1);
          has_netloc = (take 2 url2 = ''//'');
          is_delim = (\<lambda>c. c = CHR ''/'' \<or> c = CHR ''?'' \<or> c = CHR ''#'');
          netloc = (if has_netloc then takeWhile (\<lambda>c. \<not> is_delim c) (drop 2 url2) else []);
          url3 = (if has_netloc then dropWhile (\<lambda>c. \<not> is_delim c) (drop 2 url2) else url2)
      in if (CHR ''['' \<in> set netloc \<and> CHR '']'' \<notin> set netloc)
            \<or> (CHR '']'' \<in> set netloc \<and> CHR ''['' \<notin> set netloc)
         then Inl ValueError
         else
           (let fragment = (if CHR ''#'' \<in> set url3 then snd (split_first CHR ''#'' url3) else []);
                url4 = (if CHR ''#'' \<in> set url3 then fst (split_first CHR ''#'' url3) else url3);
                query = (if CHR ''?'' \<in> set url4 then snd (split_first CHR ''?'' url4) else []);
                url5 = (if CHR ''?'' \<in> set url4 then fst (split_first CHR ''?'' url4) else url4)
            in Inr \<lparr>url_scheme = scheme, url_netloc = netloc, url_path = url5, url_params = [],
                     url_query = query, url_fragment = fragment\<rparr>))"

definition splitparams :: "string \<Rightarrow> string \<times> string" where
  "splitparams url =
     (if CHR ''/'' \<in> set url
      then (let tail = rev (takeWhile (\<lambda>c. c \<noteq> CHR ''/'') (rev url));
                head = take (length url - length tail) url
            in if CHR '';'' \<in> set tail
               then (head @ fst (split_first CHR '';'' tail), snd (split_first CHR '';'' tail))
               else (url, []))
      else split_first CHR '';'' url)"

definition py_urlparse :: "string \<Rightarrow> string \<Rightarrow> py_exn + url_parts" where
  "py_urlparse url scheme =
     (case py_urlsplit url scheme of
        Inl e \<Rightarrow> Inl e
      | Inr sp \<Rightarrow>
          if url_scheme sp \<in> set uses_params \<and> CHR '';'' \<in> set (url_path sp)
          then Inr (sp\<lparr>url_path := fst (splitparams (url_path sp)),
                       url_params := snd (splitparams (url_path sp))\<rparr>)
          else Inr sp)"

definition py_urlunsplit :: "url_parts \<Rightarrow> string" where
  "py_urlunsplit u =
     (let url1 = (if url_netloc u \<noteq> [] \<or> (url_scheme u \<noteq> [] \<and> url_scheme u \<in> set uses_netloc)
                     \<or> take 2 (url_path u) = ''//''
                  then ''//'' @ url_netloc u
                       @ (if url_path u \<noteq> [] \<and> take 1 (url_path u) \<noteq> ''/''
                          then ''/'' @ url_path u else url_path u)
                  else url_path u);
          url2 = (if url_scheme u \<noteq> [] then url_scheme u @ '':'' @ url1 else url1);
          url3 = (if url_query u \<noteq> [] then url2 @ ''?'' @ url_query u else url2)
      in if url_fragment u \<noteq> [] then url3 @ ''#'' @ url_fragment u else url3)"

definition py_urlunparse :: "url_parts \<Rightarrow> string" where
  "py_urlunparse u =
     py_urlunsplit (if url_params u \<noteq> []
                    then u\<lparr>url_path := url_path u @ '';'' @ url_params u\<rparr> else u)"

text \<open>\<open>segments[1:-1] = filter(None, segments[1:-1])\<close>.\<close>

fun drop_empty_inner :: "string list \<Rightarrow> string list" where
  "drop_empty_inner [] = []"
| "drop_empty_inner [s] = [s]"
| "drop_empty_inner (s # ss) = s # filter (\<lambda>x. x \<noteq> []) (butlast ss) @ [last ss]"

text \<open>The loop that resolves the \<open>.\<close> and \<open>..\<close> segments.\<close>

fun resolve_segments :: "string list \<Rightarrow> string list \<Rightarrow> string list" where
  "resolve_segments [] resolved_path = resolved_path"
| "resolve_segments (seg # segs) resolved_path =
     (if seg = ''..'' then resolve_segments segs (butlast resolved_path)
      else if seg = ''.'' then resolve_segments segs resolved_path
      else resolve_segments segs (resolved_path @ [seg]))"

definition py_urljoin :: "string \<Rightarrow> string \<Rightarrow> py_exn + string" where
  "py_urljoin base url =
     (if base = [] then Inr url
      else if url = [] then Inr base
      else
        (case py_urlparse base [] of
           Inl e \<Rightarrow> Inl e
         | Inr b \<Rightarrow>
             (case py_urlparse url (url_scheme b) of
                Inl e \<Rightarrow> Inl e
              | Inr u \<Rightarrow>
                  if url_scheme u \<noteq> url_scheme b \<or> url_scheme u \<notin> set uses_relative
                  then Inr url
                  else if url_scheme u \<in> set uses_netloc \<and> url_netloc u \<noteq> []
                  then Inr (py_urlunparse u)
                  else
                    (let netloc = (if url_scheme u \<in> set uses_netloc
                                   then url_netloc b else url_netloc u)
                     in if url_path u = [] \<and> url_params u = []
                        then Inr (py_urlunparse
                               (u\<lparr>url_netloc := netloc, url_path := url_path b,
                                   url_params := url_params b,
                                   url_query := (if url_query u = [] then url_query b
                                                 else url_query u)\<rparr>))
                        else
                          (let base_parts = split_on CHR ''/'' (url_path b);
                               base_parts' = (if last base_parts \<noteq> [] then butlast base_parts
                                              else base_parts);
                               segments = (if take 1 (url_path u) = ''/''
                                           then split_on CHR ''/'' (url_path u)
                                           else drop_empty_inner
                                                  (base_parts' @ split_on CHR ''/'' (url_path u)));
                               resolved = resolve_segments segments [];
                               resolved_path = (if last segments = ''.'' \<or> last segments = ''..''
                                                then resolved @ [[]] else resolved);
                               joined = join_with CHR ''/'' resolved_path
                           in Inr (py_urlunparse
                                (u\<lparr>url_netloc := netloc,
                                    url_path := (if joined = [] then ''/'' else joined)\<rparr>)))))))"

definition py_urlparse_path :: "string \<Rightarrow> py_exn + string" where
  "py_urlparse_path url =
     (case py_urlparse url [] of Inl e \<Rightarrow> Inl e | Inr u \<Rightarrow> Inr (url_path u))"

text \<open>
  A platform for the examples: the network answers are given, \<open>urllib.parse\<close> is the
  model above, and the identifiers and the clock count up.
\<close>

definition example_platform ::
  "(string \<Rightarrow> kwargs \<Rightarrow> py_exn + response) \<Rightarrow> (string \<Rightarrow> kwargs \<Rightarrow> py_exn + stream_response) \<Rightarrow> platform" where
  "example_platform get stream =
     \<lparr>httpx_get = get, httpx_stream = stream,
      urlparse_path = py_urlparse_path, urljoin = py_urljoin,
      uuid4 = (\<lambda>k. ''6f1c2a9e-58d3-4b7a-9c41-'' @ replicate (Suc k) CHR ''0''),
      utcnow = (\<lambda>k. 1700000000000000 + int k),
      chrome_user_agent = ''Mozilla/5.0''\<rparr>"

definition example_kwargs :: kwargs where
  "example_kwargs = [''headers'' \<mapsto> [(''Accept'', ''application/pdf'')]]"

definition no_stream :: "string \<Rightarrow> kwargs \<Rightarrow> py_exn + stream_response" where
  "no_stream url kwargs = Inl RequestError"

text \<open>A server that answers every \<open>GET\<close> with status 200 and the given document.\<close>

definition serves :: "element list \<Rightarrow> string \<Rightarrow> kwargs \<Rightarrow> py_exn + response" where
  "serves soup url kwargs = Inr \<lparr>status_code = 200, document = soup\<rparr>"

definition anchor :: "string \<Rightarrow> element" where
  "anchor href = Tag ''a'' [(''href'', AttrStr href)]"


definition unreachable :: "string \<Rightarrow> kwargs \<Rightarrow> py_exn + response" where
  "unreachable url kwargs = Inl RequestError"

definition server_error :: "string \<Rightarrow> kwargs \<Rightarrow> py_exn + response" where
  "server_error url kwargs = Inr \<lparr>status_code = 500, document = [anchor ''a.pdf'']\<rparr>"

section \<open>The file system\<close>

text \<open>
  A path names an entry of the file system literally: the model does not resolve
  \<open>.\<close> and \<open>..\<close>, repeated or trailing slashes or symbolic links, and it has no
  permissions and no limit of space. The current directory is the parent \<open>''''\<close> of a
  path without a slash and always exists.
\<close>

text \<open>\<open>os.path.dirname\<close> of \<open>posixpath\<close>.\<close>

definition dirname :: "string \<Rightarrow> string" where
  "dirname p =
     (let head = rev (dropWhile (\<lambda>c. c \<noteq> CHR ''/'') (rev p))
      in if head \<noteq> [] \<and> \<not> list_all (\<lambda>c. c = CHR ''/'') head
         then rev (dropWhile (\<lambda>c. c = CHR ''/'') (rev head))
         else head)"

text \<open>The directories on the way to \<open>d\<close>, and \<open>d\<close> itself.\<close>

definition path_ancestors :: "string \<Rightarrow> string list" where
  "path_ancestors d =
     map (\<lambda>i. take i d) (filter (\<lambda>i. d ! i = CHR ''/'' \<and> d ! (i - 1) \<noteq> CHR ''/'') [1..<length d])
       @ [d]"

text \<open>
  \<open>os.makedirs(d, exist_ok=True)\<close>: \<open>mkdir('''')\<close> fails with \<open>FileNotFoundError\<close>; a
  regular file at \<open>d\<close> gives \<open>FileExistsError\<close> and one on the way to \<open>d\<close> gives
  \<open>NotADirectoryError\<close>; otherwise \<open>d\<close> and the missing directories on the way exist
  afterwards.
\<close>

definition os_makedirs :: "world \<Rightarrow> string \<Rightarrow> py_exn + world" where
  "os_makedirs w d =
     (if d = [] then Inl FileNotFoundError
      else if files w d \<noteq> None then Inl FileExistsError
      else if list_ex (\<lambda>p. files w p \<noteq> None) (path_ancestors d) then Inl NotADirectoryError
      else Inr (w\<lparr>dirs := dirs w \<union> set (path_ancestors d)\<rparr>))"

text \<open>
  \<open>open(p, "wb")\<close>: the file is created or truncated; it fails on a directory and when
  the parent directory is missing.
\<close>

definition open_wb :: "world \<Rightarrow> string \<Rightarrow> py_exn + world" where
  "open_wb w p =
     (if p = [] then Inl FileNotFoundError
      else if p \<in> dirs w \<or> last p = CHR ''/'' then Inl IsADirectoryError
      else if files w (dirname p) \<noteq> None then Inl NotADirectoryError
      else if dirname p \<noteq> [] \<and> dirname p \<notin> dirs w then Inl FileNotFoundError
      else Inr (w\<lparr>files := (files w)(p \<mapsto> [])\<rparr>))"

text \<open>\<open>f.write(chunk)\<close> on the file opened at \<open>p\<close>.\<close>

definition file_write :: "string \<Rightarrow> world \<Rightarrow> bytes \<Rightarrow> world" where
  "file_write p w chunk =
     w\<lparr>files := (files w)(p \<mapsto> (case files w p of None \<Rightarrow> chunk | Some old \<Rightarrow> old @ chunk))\<rparr>"


section \<open>main.py: the downloader\<close>

text \<open>
  The body of the \<open>try\<close> statement: the path it returns, or the exception that leaves
  it. The call passes \<open>follow_redirects\<close> and \<open>timeout\<close> itself, so either keyword among
  \<open>kwargs\<close> is a \<open>TypeError\<close>. The status is checked before anything is written; the
  chunks are written in the order \<open>iter_bytes\<close> yields them.
\<close>

definition download_pdf_try :: "platform \<Rightarrow> world \<Rightarrow> string \<Rightarrow> string \<Rightarrow> kwargs \<Rightarrow> world \<times> (py_exn + string)" where
  "download_pdf_try P w url save_path kwargs =
     (if kwargs ''follow_redirects'' \<noteq> None \<or> kwargs ''timeout'' \<noteq> None then (w, Inl TypeError)
      else
        (case httpx_stream P url kwargs of
           Inl e \<Rightarrow> (w, Inl e)
         | Inr response \<Rightarrow>
             (case raise_for_status (stream_status_code response) of
                Inl e \<Rightarrow> (w, Inl e)
              | Inr u \<Rightarrow>
                  (case os_makedirs w (dirname save_path) of
                     Inl e \<Rightarrow> (w, Inl e)
                   | Inr w1 \<Rightarrow>
                       (case open_wb w1 save_path of
                          Inl e \<Rightarrow> (w1, Inl e)
                        | Inr w2 \<Rightarrow>
                            (let w3 = foldl (file_write save_path) w2 (stream_chunks response)
                             in case stream_error response of
                                  Some e \<Rightarrow> (w3, Inl e)
                                | None \<Rightarrow> (w3, Inr save_path)))))))"

text \<open>
  \<open>download_pdf\<close>: \<open>KeyError\<close> from the log call before \<open>try\<close> when \<open>headers\<close> is
  missing; each of the three handlers logs and returns \<open>None\<close>.
\<close>

definition download_pdf :: "platform \<Rightarrow> world \<Rightarrow> string \<Rightarrow> string \<Rightarrow> kwargs \<Rightarrow> world \<times> (py_exn + string option)" where
  "download_pdf P w url save_path kwargs =
     (case kwargs ''headers'' of
        None \<Rightarrow> (w, Inl KeyError)
      | Some hs \<Rightarrow>
          (case download_pdf_try P w url save_path kwargs of
             (w', Inr path) \<Rightarrow> (w', Inr (Some path))
           | (w', Inl e) \<Rightarrow>
               if e = RequestError then (w', Inr None)
               else if e = HTTPStatusError then (w', Inr None)
               else (w', Inr None)))"

section \<open>main.py: the run\<close>


text \<open>\<open>HEADERS\<close> with the \<open>Referer\<close> that the run adds, \<open>https://\<close> and the host of \<open>target_url\<close>.\<close>

definition HEADERS :: "platform \<Rightarrow> headers" where
  "HEADERS P =
     [(''User-Agent'', chrome_user_agent P),
      (''Accept'', ''application/pdf,application/xhtml+xml,application/xml;q=0.9,image/avif,image/webp,image/apng,*/*;q=0.8''),
      (''Accept-Encoding'', ''gzip, deflate, br, zstd''),
      (''Accept-Language'', ''en-US,en;q=0.9''),
      (''Connection'', ''keep-alive''),
      (''Referer'', ''https://www.amc.af.mil'')]"

definition headers_kwargs :: "platform \<Rightarrow> kwargs" where
  "headers_kwargs P = [''headers'' \<mapsto> HEADERS P]"





text \<open>
  Servers for the examples of the downloader: one streams a body in two chunks with
  status 200, one answers 404; and a world in which \<open>pdf_downloads\<close> is a regular file.
\<close>

definition streams_pdf :: "string \<Rightarrow> kwargs \<Rightarrow> py_exn + stream_response" where
  "streams_pdf url kwargs =
     Inr \<lparr>stream_status_code = 200, stream_chunks = [[0x25, 0x50], [0x44, 0x46]],
          stream_error = None\<rparr>"






section \<open>Properties of database.py\<close>

lemma find_hash_None: "find (\<lambda>x. hash x = h) rows = None \<longleftrightarrow> h \<notin> hash ` set rows"
  by (induction rows) auto

lemma filter_hash_absent: "h \<notin> hash ` set rows \<Longrightarrow> filter (\<lambda>r. hash r = h) rows = []"
  by (induction rows) auto

lemma filter_hash_distinct:
  "distinct (map hash rows) \<Longrightarrow> r \<in> set rows \<Longrightarrow> filter (\<lambda>x. hash x = hash r) rows = [r]"
proof (induction rows)
  case Nil
  then show ?case by simp
next
  case (Cons a rows)
  show ?case
  proof (cases "a = r")
    case True
    with Cons.prems have "hash r \<notin> hash ` set rows" by auto
    then have "filter (\<lambda>x. hash x = hash r) rows = []" by (rule filter_hash_absent)
    with True show ?thesis by simp
  next
    case False
    with Cons.prems have "r \<in> set rows" and "hash a \<noteq> hash r" by auto
    with Cons show ?thesis by simp
  qed
qed

lemma add_hash_present:
  assumes "databases w (setting_value DB_FILE) = Some (Some rows)" and "h \<in> hash ` set rows"
  shows "add_hash w h url now = (w, Inr ())"
proof -
  from assms(2) obtain x where "find (\<lambda>x. hash x = h) rows = Some x"
    using find_hash_None [of h rows] by (cases "find (\<lambda>x. hash x = h) rows") auto
  with assms(1) show ?thesis
    by (simp add: add_hash_def sqlite3_connect_def insert_or_ignore_def)
qed

lemma add_hash_absent:
  assumes "databases w (setting_value DB_FILE) = Some (Some rows)" and "h \<notin> hash ` set rows"
  shows "add_hash w h url now =
    (w\<lparr>databases := (databases w)(setting_value DB_FILE \<mapsto>
         Some (rows @ [\<lparr>hash = h, source_url = url, first_seen_utc = now\<rparr>]))\<rparr>, Inr ())"
proof -
  from assms(2) have "find (\<lambda>x. hash x = h) rows = None" by (simp add: find_hash_None)
  with assms(1) show ?thesis
    by (simp add: add_hash_def sqlite3_connect_def insert_or_ignore_def)
qed


lemma add_hash_succeeds_iff:
  "(\<exists>w'. add_hash w h url now = (w', Inr ())) \<longleftrightarrow> seen_pdfs_of w (setting_value DB_FILE) \<noteq> None"
  by (auto simp: add_hash_def sqlite3_connect_def insert_or_ignore_def seen_pdfs_of_def Let_def
      split: option.splits sum.splits)

lemma hash_exists_table:
  assumes "databases w (setting_value DB_FILE) = Some (Some rows)"
  shows "hash_exists w h = (w, Inr (h \<in> hash ` set rows))"
proof -
  have "fetchone (map (\<lambda>r. 1::nat) (filter (\<lambda>r. hash r = h) rows)) \<noteq> None
      \<longleftrightarrow> h \<in> hash ` set rows"
    by (induction rows) auto
  with assms show ?thesis
    by (simp add: hash_exists_def sqlite3_connect_def select_1_where_hash_def)
qed


lemma setup_database_fresh:
  assumes "environ w (setting_value DB_FILE) = None"
    and "seen_pdfs_of w (setting_value DB_FILE) = None"
  shows "databases (setup_database w) (setting_value DB_FILE) = Some (Some [])"
  using assms
  by (auto simp: setup_database_def environ_get_def sqlite3_connect_def
      create_table_if_not_exists_def seen_pdfs_of_def split: option.splits)

text \<open>
  Claim C1. In a store whose table exists and satisfies its primary key, \<open>add_hash\<close> of
  a hash that a record \<open>r\<close> already carries raises nothing and leaves the whole world as
  it was, so that \<open>r\<close> is still the one record with that hash, with its own
  \<open>source_url\<close> and \<open>first_seen_utc\<close>. Inserting an absent hash twice succeeds both
  times, the second insertion changes nothing, and the one record with that hash holds
  the URL and the time of the first insertion. Every insertion keeps the hashes of the
  table distinct.
\<close>

theorem add_hash_idempotent:
  assumes tbl: "databases w (setting_value DB_FILE) = Some (Some rows)"
    and pk: "distinct (map hash rows)"
  shows "(r \<in> set rows \<longrightarrow>
            add_hash w (hash r) url now = (w, Inr ())
          \<and> records_with_hash (fst (add_hash w (hash r) url now)) (hash r) = [r])
       \<and> (h \<notin> hash ` set rows \<longrightarrow>
            (\<exists>w1. add_hash w h url1 now1 = (w1, Inr ())
                \<and> add_hash w1 h url2 now2 = (w1, Inr ())
                \<and> records_with_hash w1 h =
                     [\<lparr>hash = h, source_url = url1, first_seen_utc = now1\<rparr>]))
       \<and> primary_key_unique (fst (add_hash w h url now))"
proof (intro conjI impI)
  assume r: "r \<in> set rows"
  then have "hash r \<in> hash ` set rows" by simp
  with tbl show same: "add_hash w (hash r) url now = (w, Inr ())" by (rule add_hash_present)
  from tbl have "seen_pdfs w = rows" by (simp add: seen_pdfs_def seen_pdfs_of_def)
  with pk r show "records_with_hash (fst (add_hash w (hash r) url now)) (hash r) = [r]"
    by (simp add: same records_with_hash_def filter_hash_distinct)
next
  assume absent: "h \<notin> hash ` set rows"
  let ?r = "\<lparr>hash = h, source_url = url1, first_seen_utc = now1\<rparr>"
  let ?w1 = "w\<lparr>databases := (databases w)(setting_value DB_FILE \<mapsto> Some (rows @ [?r]))\<rparr>"
  from tbl absent have first: "add_hash w h url1 now1 = (?w1, Inr ())" by (rule add_hash_absent)
  have tbl1: "databases ?w1 (setting_value DB_FILE) = Some (Some (rows @ [?r]))" by simp
  have "h \<in> hash ` set (rows @ [?r])" by simp
  with tbl1 have second: "add_hash ?w1 h url2 now2 = (?w1, Inr ())" by (rule add_hash_present)
  have "filter (\<lambda>x. hash x = h) rows = []" using absent by (rule filter_hash_absent)
  then have "records_with_hash ?w1 h = [?r]"
    by (simp add: records_with_hash_def seen_pdfs_def seen_pdfs_of_def)
  with first second
  show "\<exists>w1. add_hash w h url1 now1 = (w1, Inr ()) \<and> add_hash w1 h url2 now2 = (w1, Inr ())
          \<and> records_with_hash w1 h = [?r]"
    by blast
next
  from tbl have rows: "seen_pdfs w = rows" by (simp add: seen_pdfs_def seen_pdfs_of_def)
  show "primary_key_unique (fst (add_hash w h url now))"
  proof (cases "h \<in> hash ` set rows")
    case True
    with tbl have "add_hash w h url now = (w, Inr ())" by (rule add_hash_present)
    with pk rows show ?thesis by (simp add: primary_key_unique_def)
  next
    case False
    with tbl have "add_hash w h url now =
      (w\<lparr>databases := (databases w)(setting_value DB_FILE \<mapsto>
         Some (rows @ [\<lparr>hash = h, source_url = url, first_seen_utc = now\<rparr>]))\<rparr>, Inr ())"
      by (rule add_hash_absent)
    with pk False show ?thesis
      by (simp add: primary_key_unique_def seen_pdfs_def seen_pdfs_of_def)
  qed
qed

theorem add_hash_idempotent_witness:
  "add_hash example_store ''ab12'' ''http://h/b.pdf'' 9 = (example_store, Inr ())
   \<and> records_with_hash example_store ''ab12'' =
        [\<lparr>hash = ''ab12'', source_url = ''http://h/a.pdf'', first_seen_utc = 5\<rparr>]
   \<and> (\<exists>w1. add_hash example_store ''cd34'' ''http://h/c.pdf'' 7 = (w1, Inr ())
          \<and> add_hash w1 ''cd34'' ''http://h/d.pdf'' 8 = (w1, Inr ())
          \<and> records_with_hash w1 ''cd34'' =
               [\<lparr>hash = ''cd34'', source_url = ''http://h/c.pdf'', first_seen_utc = 7\<rparr>])
   \<and> primary_key_unique (fst (add_hash example_store ''cd34'' ''http://h/b.pdf'' 9))"
proof -
  let ?r = "\<lparr>hash = ''ab12'', source_url = ''http://h/a.pdf'', first_seen_utc = 5\<rparr>"
  have tbl: "databases example_store (setting_value DB_FILE) = Some (Some [?r])"
    by (simp add: example_store_def empty_world_def)
  have pk: "distinct (map hash [?r])" by simp
  show ?thesis
    using add_hash_idempotent [OF tbl pk, of ?r "''http://h/b.pdf''" 9 "''cd34''"
        "''http://h/c.pdf''" 7 "''http://h/d.pdf''" 8]
    by auto
qed

text \<open>
  Claim C5. \<open>hash_exists\<close> returns \<open>False\<close> in every state of the store that has no
  record with the hash, in particular on the store that \<open>setup_database\<close> has just
  created, and \<open>True\<close> in the state a successful \<open>add_hash\<close> of the hash leaves.
\<close>

theorem hash_exists_before_and_after_insert:
  "(seen_pdfs_of w (setting_value DB_FILE) = Some rows \<and> h \<notin> hash ` set rows
      \<longrightarrow> hash_exists w h = (w, Inr False))
   \<and> (environ w (setting_value DB_FILE) = None \<and> seen_pdfs_of w (setting_value DB_FILE) = None
      \<longrightarrow> snd (hash_exists (setup_database w) h) = Inr False)
   \<and> (add_hash w h url now = (w', Inr ()) \<longrightarrow> hash_exists w' h = (w', Inr True))"
proof (intro conjI impI)
  assume "seen_pdfs_of w (setting_value DB_FILE) = Some rows \<and> h \<notin> hash ` set rows"
  then have "databases w (setting_value DB_FILE) = Some (Some rows)" and "h \<notin> hash ` set rows"
    by (auto simp: seen_pdfs_of_def split: option.splits)
  then show "hash_exists w h = (w, Inr False)" by (simp add: hash_exists_table)
next
  assume "environ w (setting_value DB_FILE) = None \<and> seen_pdfs_of w (setting_value DB_FILE) = None"
  then have "databases (setup_database w) (setting_value DB_FILE) = Some (Some [])"
    by (intro setup_database_fresh) simp_all
  then show "snd (hash_exists (setup_database w) h) = Inr False"
    by (simp add: hash_exists_table)
next
  assume ins: "add_hash w h url now = (w', Inr ())"
  then have "seen_pdfs_of w (setting_value DB_FILE) \<noteq> None"
    using add_hash_succeeds_iff [of w h url now] by blast
  then obtain rows where tbl: "databases w (setting_value DB_FILE) = Some (Some rows)"
    by (auto simp: seen_pdfs_of_def split: option.splits)
  show "hash_exists w' h = (w', Inr True)"
  proof (cases "h \<in> hash ` set rows")
    case True
    with tbl have "add_hash w h url now = (w, Inr ())" by (rule add_hash_present)
    with ins have "w' = w" by simp
    with tbl True show ?thesis by (simp add: hash_exists_table)
  next
    case False
    let ?rows = "rows @ [\<lparr>hash = h, source_url = url, first_seen_utc = now\<rparr>]"
    from tbl False have "add_hash w h url now =
      (w\<lparr>databases := (databases w)(setting_value DB_FILE \<mapsto> Some ?rows)\<rparr>, Inr ())"
      by (rule add_hash_absent)
    with ins have "databases w' (setting_value DB_FILE) = Some (Some ?rows)" by auto
    then have "hash_exists w' h = (w', Inr (h \<in> hash ` set ?rows))" by (rule hash_exists_table)
    then show ?thesis by simp
  qed
qed


theorem hash_exists_before_and_after_insert_witness:
  "hash_exists example_store ''cd34'' = (example_store, Inr False)
   \<and> snd (hash_exists (setup_database empty_world) ''cd34'') = Inr False
   \<and> hash_exists (fst (add_hash example_store ''cd34'' ''http://h/c.pdf'' 7)) ''cd34'' =
        (fst (add_hash example_store ''cd34'' ''http://h/c.pdf'' 7), Inr True)"
proof -
  let ?r = "\<lparr>hash = ''ab12'', source_url = ''http://h/a.pdf'', first_seen_utc = 5\<rparr>"
  let ?w' = "fst (add_hash example_store ''cd34'' ''http://h/c.pdf'' 7)"
  have a: "seen_pdfs_of example_store (setting_value DB_FILE) = Some [?r]
      \<and> ''cd34'' \<notin> hash ` set [?r]"
    by (simp add: example_store_def empty_world_def seen_pdfs_of_def)
  have b: "environ empty_world (setting_value DB_FILE) = None
      \<and> seen_pdfs_of empty_world (setting_value DB_FILE) = None"
    by (simp add: empty_world_def seen_pdfs_of_def)
  have c: "add_hash example_store ''cd34'' ''http://h/c.pdf'' 7 = (?w', Inr ())"
    by (simp add: add_hash_def sqlite3_connect_def insert_or_ignore_def example_store_def
        empty_world_def)
  from a b c show ?thesis
    using hash_exists_before_and_after_insert [of example_store "[?r]" "''cd34''"
        "''http://h/c.pdf''" 7 ?w']
      hash_exists_before_and_after_insert [of empty_world "[]" "''cd34''"
        "''http://h/c.pdf''" 7 empty_world]
    by blast
qed

text \<open>
  Claim C10. \<open>hash_exists\<close> is read-only: whatever it returns or raises, the table
  \<open>seen_pdfs\<close> of every database file (its rows with all their fields, in their order,
  and whether the table exists) is the same after the call as before, and so are the
  environment and the file system.
\<close>

theorem hash_exists_read_only:
  "seen_pdfs_of (fst (hash_exists w h)) path = seen_pdfs_of w path
   \<and> seen_pdfs (fst (hash_exists w h)) = seen_pdfs w
   \<and> environ (fst (hash_exists w h)) = environ w
   \<and> dirs (fst (hash_exists w h)) = dirs w
   \<and> files (fst (hash_exists w h)) = files w"
proof -
  have conn: "seen_pdfs_of (sqlite3_connect w p) path = seen_pdfs_of w path" for p
    by (simp add: sqlite3_connect_def seen_pdfs_of_def split: option.splits)
  have w1: "fst (hash_exists w h) = sqlite3_connect w (setting_value DB_FILE)"
    by (simp add: hash_exists_def Let_def split: sum.splits)
  have "seen_pdfs_of (fst (hash_exists w h)) q = seen_pdfs_of w q" for q
    unfolding w1 by (simp add: sqlite3_connect_def seen_pdfs_of_def split: option.splits)
  moreover have "environ (fst (hash_exists w h)) = environ w"
    "dirs (fst (hash_exists w h)) = dirs w" "files (fst (hash_exists w h)) = files w"
    unfolding w1 by (simp_all add: sqlite3_connect_def split: option.splits)
  ultimately show ?thesis by (simp add: seen_pdfs_def)
qed

theorem hash_exists_read_only_witness:
  "seen_pdfs (fst (hash_exists example_store ''ab12'')) =
     [\<lparr>hash = ''ab12'', source_url = ''http://h/a.pdf'', first_seen_utc = 5\<rparr>]
   \<and> seen_pdfs_of (fst (hash_exists empty_world ''ab12'')) ''ssa.db'' = None"
proof -
  have "seen_pdfs example_store =
     [\<lparr>hash = ''ab12'', source_url = ''http://h/a.pdf'', first_seen_utc = 5\<rparr>]"
    by (simp add: seen_pdfs_def seen_pdfs_of_def example_store_def empty_world_def)
  moreover have "seen_pdfs_of empty_world ''ssa.db'' = None"
    by (simp add: seen_pdfs_of_def empty_world_def)
  ultimately show ?thesis
    using hash_exists_read_only [of example_store "''ab12''" "''ssa.db''"]
      hash_exists_read_only [of empty_world "''ab12''" "''ssa.db''"]
    by simp
qed



section \<open>Properties of the pattern filter\<close>








section \<open>Properties of the content hasher\<close>



















section \<open>Properties of the link extractor\<close>


lemma scan_links_fst:
  "fst (scan_links P url (find_all_a_href soup) acc) =
     acc @ map (resolve P url)
             (filter (href_path_is_pdf P) (takeWhile (href_ok P url) (anchor_hrefs soup)))"
proof (induction soup arbitrary: acc)
  case Nil
  then show ?case by (simp add: find_all_a_href_def)
next
  case (Cons x soup)
  show ?case
  proof (cases x)
    case (NavigableString s)
    with Cons.IH [of acc] show ?thesis by (simp add: find_all_a_href_def)
  next
    case (Tag name attrs)
    show ?thesis
    proof (cases "map_of attrs ''href''")
      case None
      with Tag Cons.IH [of acc] show ?thesis by (simp add: find_all_a_href_def)
    next
      case (Some v)
      show ?thesis
      proof (cases "name = ''a''")
        case False
        with Tag Some Cons.IH [of acc] show ?thesis
          by (cases v) (simp_all add: find_all_a_href_def)
      next
        case True
        show ?thesis
        proof (cases v)
          case (AttrList vs)
          with Tag Some True Cons.IH [of acc] show ?thesis by (simp add: find_all_a_href_def)
        next
          case (AttrStr href)
          have step: "find_all_a_href (x # soup) = x # find_all_a_href soup"
            using Tag Some True by (simp add: find_all_a_href_def)
          show ?thesis
          proof (cases "urlparse_path P href")
            case (Inl e)
            with Tag Some True AttrStr show ?thesis
              unfolding step by (simp add: href_ok_def)
          next
            case (Inr path)
            show ?thesis
            proof (cases "endswith path ''.pdf''")
              case False
              with Tag Some True AttrStr Inr Cons.IH [of acc] show ?thesis
                unfolding step by (simp add: href_ok_def href_path_is_pdf_def)
            next
              case pdf: True
              show ?thesis
              proof (cases "urljoin P url href")
                case (Inl e)
                with Tag Some True AttrStr Inr pdf show ?thesis
                  unfolding step by (simp add: href_ok_def)
              next
                case join: (Inr absolute_url)
                with Tag Some True AttrStr Inr pdf Cons.IH [of "acc @ [absolute_url]"]
                show ?thesis
                  unfolding step by (simp add: href_ok_def href_path_is_pdf_def resolve_def)
              qed
            qed
          qed
        qed
      qed
    qed
  qed
qed

lemma scan_links_snd:
  "snd (scan_links P url (find_all_a_href soup) acc) = None
     \<longleftrightarrow> list_all (href_ok P url) (anchor_hrefs soup)"
proof (induction soup arbitrary: acc)
  case Nil
  then show ?case by (simp add: find_all_a_href_def)
next
  case (Cons x soup)
  show ?case
  proof (cases x)
    case (NavigableString s)
    with Cons.IH [of acc] show ?thesis by (simp add: find_all_a_href_def)
  next
    case (Tag name attrs)
    show ?thesis
    proof (cases "map_of attrs ''href''")
      case None
      with Tag Cons.IH [of acc] show ?thesis by (simp add: find_all_a_href_def)
    next
      case (Some v)
      show ?thesis
      proof (cases "name = ''a''")
        case False
        with Tag Some Cons.IH [of acc] show ?thesis
          by (cases v) (simp_all add: find_all_a_href_def)
      next
        case True
        show ?thesis
        proof (cases v)
          case (AttrList vs)
          with Tag Some True Cons.IH [of acc] show ?thesis by (simp add: find_all_a_href_def)
        next
          case (AttrStr href)
          have step: "find_all_a_href (x # soup) = x # find_all_a_href soup"
            using Tag Some True by (simp add: find_all_a_href_def)
          show ?thesis
          proof (cases "urlparse_path P href")
            case (Inl e)
            with Tag Some True AttrStr show ?thesis
              unfolding step by (simp add: href_ok_def)
          next
            case (Inr path)
            show ?thesis
            proof (cases "endswith path ''.pdf''")
              case False
              with Tag Some True AttrStr Inr Cons.IH [of acc] show ?thesis
                unfolding step by (simp add: href_ok_def)
            next
              case pdf: True
              show ?thesis
              proof (cases "urljoin P url href")
                case (Inl e)
                with Tag Some True AttrStr Inr pdf show ?thesis
                  unfolding step by (simp add: href_ok_def)
              next
                case join: (Inr absolute_url)
                with Tag Some True AttrStr Inr pdf Cons.IH [of "acc @ [absolute_url]"]
                show ?thesis
                  unfolding step by (simp add: href_ok_def)
              qed
            qed
          qed
        qed
      qed
    qed
  qed
qed


lemma get_pdf_links_with_headers:
  assumes "kwargs ''headers'' = Some hs"
  shows "get_pdf_links P url kwargs = Inr (fst (get_pdf_links_try P url kwargs))"
  using assms by (simp add: get_pdf_links_def split: prod.splits option.splits)

lemma get_pdf_links_try_success:
  assumes "httpx_get P url kwargs = Inr response" and "is_success (status_code response)"
  shows "get_pdf_links_try P url kwargs =
    scan_links P url (find_all_a_href (document response)) []"
  using assms by (simp add: get_pdf_links_try_def raise_for_status_def)




text \<open>
  Claim C4, as far as it holds. With the \<open>headers\<close> keyword given, \<open>get_pdf_links\<close>
  never raises. It returns the empty list when \<open>httpx.get\<close> raises (a network
  failure or anything else) and when the status is not 2xx. When an exception ends the
  loop over the anchors, the call returns the links collected up to the failing href,
  which need not be none.
\<close>

theorem get_pdf_links_failure_policy:
  assumes "kwargs ''headers'' = Some hs"
  shows "(\<exists>links. get_pdf_links P url kwargs = Inr links)
    \<and> (httpx_get P url kwargs = Inl e \<longrightarrow> get_pdf_links P url kwargs = Inr [])
    \<and> (httpx_get P url kwargs = Inr response \<and> \<not> is_success (status_code response) \<longrightarrow>
          get_pdf_links P url kwargs = Inr [])
    \<and> (httpx_get P url kwargs = Inr response \<and> is_success (status_code response) \<longrightarrow>
          get_pdf_links P url kwargs =
            Inr (map (resolve P url) (filter (href_path_is_pdf P)
                   (takeWhile (href_ok P url) (anchor_hrefs (document response))))))"
proof -
  note g = get_pdf_links_with_headers [of kwargs hs P url, OF assms]
  have a: "\<exists>links. get_pdf_links P url kwargs = Inr links"
    using g by blast
  have b: "get_pdf_links P url kwargs = Inr []" if "httpx_get P url kwargs = Inl e"
    using that by (simp add: g get_pdf_links_try_def)
  have c: "get_pdf_links P url kwargs = Inr []"
    if "httpx_get P url kwargs = Inr response \<and> \<not> is_success (status_code response)"
    using that by (simp add: g get_pdf_links_try_def raise_for_status_def)
  have d: "get_pdf_links P url kwargs =
      Inr (map (resolve P url) (filter (href_path_is_pdf P)
             (takeWhile (href_ok P url) (anchor_hrefs (document response)))))"
    if "httpx_get P url kwargs = Inr response \<and> is_success (status_code response)"
    using that scan_links_fst [of P url "document response" "[]"]
      get_pdf_links_try_success [of P url kwargs response]
    by (simp add: g)
  from a b c d show ?thesis by blast
qed

theorem get_pdf_links_failure_policy_witness:
  "get_pdf_links (example_platform unreachable no_stream) ''http://h/dir/'' example_kwargs = Inr []
   \<and> get_pdf_links (example_platform server_error no_stream) ''http://h/dir/'' example_kwargs
       = Inr []
   \<and> get_pdf_links (example_platform (serves [anchor ''a.pdf'', anchor ''//['', anchor ''b.pdf''])
         no_stream) ''http://h/dir/'' example_kwargs = Inr [''http://h/dir/a.pdf'']"
proof -
  let ?url = "''http://h/dir/''"
  let ?soup = "[anchor ''a.pdf'', anchor ''//['', anchor ''b.pdf'']"
  let ?P1 = "example_platform unreachable no_stream"
  let ?P2 = "example_platform server_error no_stream"
  let ?P3 = "example_platform (serves ?soup) no_stream"
  let ?r2 = "\<lparr>status_code = 500, document = [anchor ''a.pdf'']\<rparr>"
  let ?r3 = "\<lparr>status_code = 200, document = ?soup\<rparr>"
  have h: "example_kwargs ''headers'' = Some [(''Accept'', ''application/pdf'')]"
    by (simp add: example_kwargs_def)
  have 1: "httpx_get ?P1 ?url example_kwargs = Inl RequestError"
    by (simp add: example_platform_def unreachable_def)
  have 2: "httpx_get ?P2 ?url example_kwargs = Inr ?r2 \<and> \<not> is_success (status_code ?r2)"
    by (simp add: example_platform_def server_error_def is_success_def)
  have 3: "httpx_get ?P3 ?url example_kwargs = Inr ?r3 \<and> is_success (status_code ?r3)"
    by (simp add: example_platform_def serves_def is_success_def)
  have links: "map (resolve ?P3 ?url) (filter (href_path_is_pdf ?P3)
      (takeWhile (href_ok ?P3 ?url) (anchor_hrefs (document ?r3)))) = [''http://h/dir/a.pdf'']"
    by code_simp
  from 1 have "get_pdf_links ?P1 ?url example_kwargs = Inr []"
    using get_pdf_links_failure_policy [of example_kwargs _ ?P1 ?url RequestError, OF h]
    by blast
  moreover from 2 have "get_pdf_links ?P2 ?url example_kwargs = Inr []"
    using get_pdf_links_failure_policy [of example_kwargs _ ?P2 ?url _ ?r2, OF h]
    by blast
  moreover from 3 have "get_pdf_links ?P3 ?url example_kwargs = Inr [''http://h/dir/a.pdf'']"
    using get_pdf_links_failure_policy [of example_kwargs _ ?P3 ?url _ ?r3, OF h]
    by (simp only: links)
  ultimately show ?thesis by blast
qed

text \<open>
  Claim C4 as stated has every failure return no links. An href that \<open>urlparse\<close>
  rejects (\<open>//[\<close> is an invalid IPv6 URL) ends the loop with \<open>ValueError\<close>; the
  handler catches it and the call returns the link found before it.
\<close>

theorem get_pdf_links_partial_counterexample:
  "snd (get_pdf_links_try (example_platform (serves [anchor ''a.pdf'', anchor ''//['']) no_stream)
      ''http://h/dir/'' example_kwargs) = Some ValueError
   \<and> get_pdf_links (example_platform (serves [anchor ''a.pdf'', anchor ''//['']) no_stream)
      ''http://h/dir/'' example_kwargs = Inr [''http://h/dir/a.pdf'']"
  by code_simp

section \<open>Properties of the downloader\<close>



lemma download_pdf_with_headers:
  assumes "kwargs ''headers'' = Some hs"
  shows "download_pdf P w url save_path kwargs =
    (fst (download_pdf_try P w url save_path kwargs),
     Inr (case snd (download_pdf_try P w url save_path kwargs) of
            Inl e \<Rightarrow> None | Inr path \<Rightarrow> Some path))"
  using assms by (simp add: download_pdf_def split: prod.splits sum.splits)








text \<open>
  A destination path without a directory part: \<open>os.path.dirname\<close> gives the empty
  string, \<open>os.makedirs\<close> of the empty string raises \<open>FileNotFoundError\<close>, and the call
  returns \<open>None\<close> and writes nothing although the response is successful.
\<close>

theorem download_pdf_bare_file_name:
  assumes "kwargs ''headers'' = Some hs" and "CHR ''/'' \<notin> set save_path"
    and "httpx_stream P url kwargs = Inr response"
    and "is_success (stream_status_code response)"
  shows "download_pdf P w url save_path kwargs = (w, Inr None)"
proof -
  have "dropWhile (\<lambda>c. c \<noteq> CHR ''/'') (rev save_path) = []"
    using assms(2) by auto
  then have "dirname save_path = []" by (simp add: dirname_def)
  then have "os_makedirs w (dirname save_path) = Inl FileNotFoundError"
    by (simp add: os_makedirs_def)
  then have "fst (download_pdf_try P w url save_path kwargs) = w
      \<and> (\<exists>e. snd (download_pdf_try P w url save_path kwargs) = Inl e)"
    using assms(3,4) by (simp add: download_pdf_try_def raise_for_status_def)
  then show ?thesis
    using download_pdf_with_headers [of kwargs hs P w url save_path, OF assms(1)]
    by auto
qed

theorem download_pdf_bare_file_name_witness:
  "download_pdf (example_platform unreachable streams_pdf) empty_world
      ''http://h/72hr.pdf'' ''report.pdf'' example_kwargs = (empty_world, Inr None)"
proof -
  have h: "example_kwargs ''headers'' = Some [(''Accept'', ''application/pdf'')]"
    by (simp add: example_kwargs_def)
  have s: "CHR ''/'' \<notin> set ''report.pdf''" by simp
  have r: "httpx_stream (example_platform unreachable streams_pdf) ''http://h/72hr.pdf''
      example_kwargs = Inr \<lparr>stream_status_code = 200,
        stream_chunks = [[0x25, 0x50], [0x44, 0x46]], stream_error = None\<rparr>"
    by (simp add: example_platform_def streams_pdf_def)
  show ?thesis
    using download_pdf_bare_file_name [where kwargs = example_kwargs
        and save_path = "''report.pdf''" and w = empty_world, OF h s r]
    by (simp add: is_success_def)
qed

section \<open>Properties of the run\<close>



lemma headers_kwargs_other:
  "headers_kwargs P ''follow_redirects'' = None" "headers_kwargs P ''timeout'' = None"
  by (simp_all add: headers_kwargs_def)






lemma foldl_file_write_databases: "databases (foldl (file_write p) w cs) = databases w"
  by (induction cs arbitrary: w) (simp_all add: file_write_def)


lemma download_pdf_try_databases:
  "databases (fst (download_pdf_try P w url p kwargs)) = databases w"
  by (auto simp: download_pdf_try_def Let_def foldl_file_write_databases os_makedirs_def
      open_wb_def split: sum.splits option.splits if_splits)























end
